theory Spec2Isabelle
  imports Main "HOL-Library.Sublist"
begin

section \<open>Strings\<close>

text \<open>
  Message texts and identifiers are modelled as \<open>string\<close>. The model covers ASCII text:
  \<open>toLowerCase\<close> maps \<open>A\<close>..\<open>Z\<close> to \<open>a\<close>..\<open>z\<close> and leaves every other character
  as it is, which is what \<open>String.prototype.toLowerCase\<close> does on ASCII input.
\<close>

definition lowerChar :: "char \<Rightarrow> char" where
  "lowerChar c =
     (let n = (of_char c :: nat)
      in if 65 \<le> n \<and> n \<le> 90 then char_of (n + 32) else c)"

definition toLowerCase :: "string \<Rightarrow> string" where
  "toLowerCase s = map lowerChar s"

text \<open>
  \<open>s.includes(sub)\<close>: \<open>sub\<close> occurs in \<open>s\<close> as a contiguous substring.
  (\<open>includes\<close> is a keyword of Isabelle, hence the name.)
\<close>

fun includesStr :: "string \<Rightarrow> string \<Rightarrow> bool" where
  "includesStr [] sub = (sub = [])"
| "includesStr (c # cs) sub = (prefix sub (c # cs) \<or> includesStr cs sub)"

text \<open>
  \<open>s.replace(pat, rep)\<close> with a string pattern: only the first occurrence of \<open>pat\<close>
  is replaced.
\<close>

fun replace :: "string \<Rightarrow> string \<Rightarrow> string \<Rightarrow> string" where
  "replace [] pat rep = (if pat = [] then rep else [])"
| "replace (c # cs) pat rep =
     (if prefix pat (c # cs) then rep @ drop (length pat) (c # cs)
      else c # replace cs pat rep)"

text \<open>\<open>xs.join(sep)\<close>.\<close>

fun join :: "string \<Rightarrow> string list \<Rightarrow> string" where
  "join sep [] = []"
| "join sep [x] = x"
| "join sep (x # y # ys) = x @ sep @ join sep (y # ys)"

section \<open>The classifier: \<open>analyzeMessage\<close>\<close>

text \<open>
  The object \<open>{ originalMessage: message }\<close> handed to every handler. (\<open>context\<close> is
  a keyword of Isabelle, hence the names \<open>coordination_context\<close> and \<open>context'\<close>.)
\<close>

record coordination_context =
  originalMessage :: string

record coordinator_response =
  analysis :: string
  specialists :: "string list"
  context' :: coordination_context

definition analyzeMessage :: "string \<Rightarrow> coordinator_response" where
  "analyzeMessage message =
     (let specialists0 = [];
          lowerMessage = toLowerCase message;
          specialists1 =
            (if includesStr lowerMessage ''code'' \<or> includesStr lowerMessage ''react''
                \<or> includesStr lowerMessage ''javascript'' \<or> includesStr lowerMessage ''component''
             then specialists0 @ [''code_ai''] else specialists0);
          specialists2 =
            (if includesStr lowerMessage ''design'' \<or> includesStr lowerMessage ''ui''
                \<or> includesStr lowerMessage ''ux'' \<or> includesStr lowerMessage ''style''
             then specialists1 @ [''design_ai''] else specialists1);
          specialists3 =
            (if includesStr lowerMessage ''write'' \<or> includesStr lowerMessage ''content''
                \<or> includesStr lowerMessage ''documentation''
             then specialists2 @ [''writing_ai''] else specialists2);
          specialists4 =
            (if includesStr lowerMessage ''analyze'' \<or> includesStr lowerMessage ''performance''
                \<or> includesStr lowerMessage ''optimize''
             then specialists3 @ [''analysis_ai''] else specialists3);
          specialists5 =
            (if length specialists4 = 0 then specialists4 @ [''code_ai''] else specialists4)
      in \<lparr> analysis =
             ''I'' @ [CHR 0x27] @ ''ll coordinate with our specialists to help you: ''
               @ join '', '' (map (\<lambda>s. replace s ''_'' '' '') specialists5),
           specialists = specialists5,
           context' = \<lparr> originalMessage = message \<rparr> \<rparr>)"

section \<open>The specialist registry: \<open>getSpecialistResponse\<close>\<close>

text \<open>Metadata payloads are JSON values; only strings, arrays and objects occur.\<close>

datatype json = JString string | JArray "json list" | JObject "(string \<times> json) list"

record specialist_response =
  content :: string
  metadata :: json

text \<open>
  The object literal \<open>responses\<close>: its own properties, in the order written. The entry of
  \<open>code_ai\<close> has a name of its own because the fallback \<open>responses.code_ai\<close> reads it.
\<close>

definition codeAiEntry :: specialist_response where
  "codeAiEntry =
     \<lparr> content = ''I'' @ [CHR 0x27] @ ''ll help you with the code implementation. Based on your request, I recommend creating a React component with TypeScript for better type safety and maintainability.'',
       metadata = JObject [(''type'', JString ''code''), (''language'', JString ''javascript'')] \<rparr>"

definition responses :: "(string \<times> specialist_response) list" where
  "responses =
     [(''code_ai'', codeAiEntry),
      (''design_ai'',
       \<lparr> content = ''For the UI/UX design, I suggest following modern design principles with proper spacing, typography, and accessibility considerations. The design should be responsive and user-friendly.'',
         metadata = JObject [(''type'', JString ''design''),
           (''recommendations'', JArray [JString ''responsive'', JString ''accessible'', JString ''modern''])] \<rparr>),
      (''writing_ai'',
       \<lparr> content = ''I'' @ [CHR 0x27] @ ''ll help you with clear, concise content that communicates effectively with your users. The writing should be professional yet approachable.'',
         metadata = JObject [(''type'', JString ''writing''), (''tone'', JString ''professional'')] \<rparr>),
      (''analysis_ai'',
       \<lparr> content = ''From an analysis perspective, I recommend considering performance implications, scalability, and best practices for long-term maintenance.'',
         metadata = JObject [(''type'', JString ''analysis''),
           (''focus'', JArray [JString ''performance'', JString ''scalability''])] \<rparr>)]"

text \<open>
  \<open>responses\<close> is an ordinary object, so \<open>responses[key]\<close> also finds the properties it
  inherits from \<open>Object.prototype\<close>. These are their names; each of them holds a function
  (\<open>__proto__\<close> holds the prototype object itself), which is truthy and has neither a
  \<open>content\<close> nor a \<open>metadata\<close> property.
\<close>

definition objectPrototypeKeys :: "string list" where
  "objectPrototypeKeys =
     [''constructor'', ''__defineGetter__'', ''__defineSetter__'', ''hasOwnProperty'',
      ''__lookupGetter__'', ''__lookupSetter__'', ''isPrototypeOf'', ''propertyIsEnumerable'',
      ''toString'', ''valueOf'', ''__proto__'', ''toLocaleString'']"

text \<open>What a lookup in \<open>responses\<close> can return.\<close>

datatype js_value = ResponseObject specialist_response | PrototypeMember string

text \<open>
  \<open>responses[specialist as keyof typeof responses] || responses.code_ai\<close>: the cast is
  erased at run time, an own property wins, then an inherited one, and only a key that
  is neither gives \<open>undefined\<close> and so the \<open>code_ai\<close> entry. The message and the context
  are not used.
\<close>

definition getSpecialistResponse :: "string \<Rightarrow> string \<Rightarrow> coordination_context \<Rightarrow> js_value" where
  "getSpecialistResponse specialist message ctx =
     (case map_of responses specialist of
        Some r \<Rightarrow> ResponseObject r
      | None \<Rightarrow>
          if specialist \<in> set objectPrototypeKeys then PrototypeMember specialist
          else ResponseObject codeAiEntry)"

text \<open>The property reads \<open>.content\<close> and \<open>.metadata\<close>; \<open>None\<close> is \<open>undefined\<close>.\<close>

fun contentOf :: "js_value \<Rightarrow> string option" where
  "contentOf (ResponseObject r) = Some (specialist_response.content r)"
| "contentOf (PrototypeMember k) = None"

fun metadataOf :: "js_value \<Rightarrow> json option" where
  "metadataOf (ResponseObject r) = Some (specialist_response.metadata r)"
| "metadataOf (PrototypeMember k) = None"

section \<open>Errors\<close>

text \<open>
  A rejected promise or a thrown value. \<open>ZodError\<close> is what the schema throws and the
  route tests for; \<open>TypeError\<close> is the engine's; \<open>NotFound\<close> and \<open>StoreUnavailable\<close> are
  the failures of the Conversation Store; \<open>HandlerError\<close> is whatever a handler rejects
  with. \<open>UnknownSpecialist\<close> and \<open>SpecialistDispatchFailed\<close> are the two errors of the
  specification's taxonomy; nothing in the source constructs them.
\<close>

datatype error =
    ZodError string
  | TypeError string
  | NotFound
  | StoreUnavailable
  | HandlerError string
  | UnknownSpecialist string
  | SpecialistDispatchFailed string error

section \<open>The Conversation Store\<close>

text \<open>
  The object the source hands to \<open>storage.createMessage\<close>. The optional fields and the
  content are \<open>option\<close>s, \<open>None\<close> being \<open>undefined\<close>: the content of a specialist message
  is read from a looked-up value at run time. A stored message is this record with the
  identifier and the timestamp the store assigns.
\<close>

record insert_message =
  conversationId :: string
  role :: string
  content :: "string option"
  specialist :: "string option"
  metadata :: "json option"

record message = insert_message +
  messageId :: nat
  createdAt :: nat

text \<open>
  Modelled from the spec: the Conversation Store (\<open>./storage\<close> is imported by the source
  and is not part of it). It is a durable append-only log of messages; an append assigns
  the identifier and the timestamp and fails with \<open>StoreUnavailable\<close> or with \<open>NotFound\<close>
  (unknown conversation). \<open>conversations\<close> pairs each conversation id with its owner;
  \<open>available\<close> is the number of calls the store still serves before it becomes
  unavailable, which the program cannot observe.
\<close>

record store =
  conversations :: "(string \<times> string) list"
  messages :: "message list"
  clock :: nat
  available :: nat

text \<open>
  Modelled from the spec: \<open>storage.createMessage\<close>, the append of the store. It copies
  the record, assigns the identifier and the timestamp, and appends the message to the
  log.
\<close>

definition createMessage :: "insert_message \<Rightarrow> store \<Rightarrow> (error + message) \<times> store" where
  "createMessage ins st =
     (if available st = 0 then (Inl StoreUnavailable, st)
      else if conversationId ins \<notin> set (map fst (conversations st))
        then (Inl NotFound, st\<lparr> available := available st - 1 \<rparr>)
      else
        (let m = \<lparr> conversationId = conversationId ins, role = role ins,
                   content = content ins, specialist = specialist ins,
                   metadata = metadata ins,
                   messageId = length (messages st), createdAt = clock st \<rparr>
         in (Inr m, st\<lparr> messages := messages st @ [m], clock := clock st + 1,
                         available := available st - 1 \<rparr>)))"

text \<open>
  Modelled from the spec: \<open>storage.getConversation\<close>, the ownership check the caller makes
  before a round: the conversation with this id when this user owns it, \<open>undefined\<close>
  (\<open>None\<close>) otherwise.
\<close>

definition getConversation ::
  "string \<Rightarrow> string \<Rightarrow> store \<Rightarrow> (error + (string \<times> string) option) \<times> store" where
  "getConversation cid uid st =
     (if available st = 0 then (Inl StoreUnavailable, st)
      else (Inr (find (\<lambda>c. fst c = cid \<and> snd c = uid) (conversations st)),
            st\<lparr> available := available st - 1 \<rparr>))"

section \<open>The dispatcher: \<open>coordinateAIResponse\<close>\<close>

type_synonym handler = "string \<Rightarrow> string \<Rightarrow> coordination_context \<Rightarrow> error + js_value"

text \<open>The record handed to the store for the coordinator message.\<close>

definition coordinatorInsert :: "string \<Rightarrow> coordinator_response \<Rightarrow> insert_message" where
  "coordinatorInsert cid coordinatorResponse =
     \<lparr> conversationId = cid, role = ''coordinator'',
       content = Some (analysis coordinatorResponse),
       specialist = Some ''coordinator'',
       metadata = Some (JObject [(''specialists'',
                    JArray (map JString (specialists coordinatorResponse)))]) \<rparr>"

text \<open>The record handed to the store for one specialist's message.\<close>

definition specialistInsert :: "string \<Rightarrow> string \<Rightarrow> js_value \<Rightarrow> insert_message" where
  "specialistInsert cid spec specialistResponse =
     \<lparr> conversationId = cid, role = ''assistant'',
       content = contentOf specialistResponse,
       specialist = Some spec,
       metadata = metadataOf specialistResponse \<rparr>"

text \<open>
  The \<open>for\<close> loop over the selected specialists. \<open>collected\<close> is the array \<open>responses\<close>
  of the source. Each awaited call either yields a value or rejects, and a rejection
  leaves the function at once, since there is no \<open>try\<close> around the loop. The awaited
  handler is the parameter \<open>h\<close>.
\<close>

fun delegate ::
  "handler \<Rightarrow> string \<Rightarrow> string \<Rightarrow> coordination_context \<Rightarrow> string list \<Rightarrow> message list
     \<Rightarrow> store \<Rightarrow> (error + message list) \<times> store" where
  "delegate h cid userMessage ctx [] collected st = (Inr collected, st)"
| "delegate h cid userMessage ctx (spec # rest) collected st =
     (case h spec userMessage ctx of
        Inl e \<Rightarrow> (Inl e, st)
      | Inr specialistResponse \<Rightarrow>
          (case createMessage (specialistInsert cid spec specialistResponse) st of
             (Inl e, st') \<Rightarrow> (Inl e, st')
           | (Inr specialistMessage, st') \<Rightarrow>
               delegate h cid userMessage ctx rest (collected @ [specialistMessage]) st'))"

definition coordinateWith ::
  "handler \<Rightarrow> string \<Rightarrow> string \<Rightarrow> store \<Rightarrow> (error + message list) \<times> store" where
  "coordinateWith h userMessage cid st =
     (let coordinatorResponse = analyzeMessage userMessage
      in case createMessage (coordinatorInsert cid coordinatorResponse) st of
           (Inl e, st') \<Rightarrow> (Inl e, st')
         | (Inr coordinatorMessage, st') \<Rightarrow>
             delegate h cid userMessage (context' coordinatorResponse)
               (specialists coordinatorResponse) [coordinatorMessage] st')"

text \<open>\<open>getSpecialistResponse\<close> as the awaited handler: its promise always resolves.\<close>

definition builtinHandler :: handler where
  "builtinHandler spec message ctx = Inr (getSpecialistResponse spec message ctx)"

definition coordinateAIResponse ::
  "string \<Rightarrow> string \<Rightarrow> store \<Rightarrow> (error + message list) \<times> store" where
  "coordinateAIResponse userMessage cid st = coordinateWith builtinHandler userMessage cid st"

section \<open>The route \<open>POST /api/conversations/:id/messages\<close>\<close>

record 'b request =
  userId :: string
  paramsId :: string
  body :: 'b

datatype payload =
    ErrorBody string
  | ValidationBody string string
  | CreatedBody message "message list"

record response =
  status :: nat
  json :: payload

text \<open>The \<open>catch\<close> block of the route.\<close>

fun onError :: "error \<Rightarrow> response" where
  "onError (ZodError errors) =
     \<lparr> status = 400, json = ValidationBody ''Invalid message data'' errors \<rparr>"
| "onError e = \<lparr> status = 500, json = ErrorBody ''Failed to create message'' \<rparr>"

text \<open>
  The handler of the route. \<open>parse\<close> stands for \<open>insertMessageSchema.parse\<close>, applied to
  the request body with the conversation id added; the schema is imported by the source
  and is not part of it. A parsed record without content makes \<open>analyzeMessage\<close> throw a
  \<open>TypeError\<close> at \<open>message.toLowerCase()\<close>.
\<close>

definition postMessage ::
  "('b \<Rightarrow> string \<Rightarrow> error + insert_message) \<Rightarrow> 'b request \<Rightarrow> store \<Rightarrow> response \<times> store" where
  "postMessage parse req st =
     (let uid = userId req; cid = paramsId req
      in case getConversation cid uid st of
           (Inl e, st1) \<Rightarrow> (onError e, st1)
         | (Inr None, st1) \<Rightarrow>
             (\<lparr> status = 404, json = ErrorBody ''Conversation not found'' \<rparr>, st1)
         | (Inr (Some conversation), st1) \<Rightarrow>
             (case parse (body req) cid of
                Inl e \<Rightarrow> (onError e, st1)
              | Inr validatedData \<Rightarrow>
                  (case createMessage validatedData st1 of
                     (Inl e, st2) \<Rightarrow> (onError e, st2)
                   | (Inr userMessage, st2) \<Rightarrow>
                       (case (case content validatedData of
                                None \<Rightarrow> (Inl (TypeError ''toLowerCase''), st2)
                              | Some text \<Rightarrow> coordinateAIResponse text cid st2) of
                          (Inl e, st3) \<Rightarrow> (onError e, st3)
                        | (Inr aiResponses, st3) \<Rightarrow>
                            (\<lparr> status = 200, json = CreatedBody userMessage aiResponses \<rparr>,
                             st3)))))"

section \<open>The classifier as the specification words it\<close>

text \<open>
  The four keyword groups in their fixed evaluation order, and the selection they give:
  the specialists whose group has a keyword occurring in the lower-cased text, in group
  order, or \<open>code_ai\<close> alone when no group matches.
\<close>

definition keywordGroups :: "(string \<times> string list) list" where
  "keywordGroups =
     [(''code_ai'', [''code'', ''react'', ''javascript'', ''component'']),
      (''design_ai'', [''design'', ''ui'', ''ux'', ''style'']),
      (''writing_ai'', [''write'', ''content'', ''documentation'']),
      (''analysis_ai'', [''analyze'', ''performance'', ''optimize''])]"

definition allKeywords :: "string list" where
  "allKeywords = concat (map snd keywordGroups)"

definition groupMatches :: "string \<Rightarrow> string \<times> string list \<Rightarrow> bool" where
  "groupMatches lowerMessage g = list_ex (includesStr lowerMessage) (snd g)"

definition classifySpec :: "string \<Rightarrow> string list" where
  "classifySpec message =
     (let selected = map fst (filter (groupMatches (toLowerCase message)) keywordGroups)
      in if selected = [] then [''code_ai''] else selected)"

text \<open>The rationale with every underscore of an identifier turned into a space.\<close>

definition underscoresToSpaces :: "string \<Rightarrow> string" where
  "underscoresToSpaces s = map (\<lambda>c. if c = CHR ''_'' then CHR '' '' else c) s"

definition rationaleSpec :: "string list \<Rightarrow> string" where
  "rationaleSpec selected =
     ''I'' @ [CHR 0x27] @ ''ll coordinate with our specialists to help you: ''
       @ join '', '' (map underscoresToSpaces selected)"

text \<open>The identifiers the registry knows: the own keys of \<open>responses\<close>.\<close>

definition knownIdentifiers :: "string list" where
  "knownIdentifiers = map fst responses"

text \<open>ASCII white space.\<close>

definition isSpace :: "char \<Rightarrow> bool" where
  "isSpace c = (c \<in> set [CHR '' '', CHR 0x09, CHR 0x0A, CHR 0x0B, CHR 0x0C, CHR 0x0D])"



section \<open>Auxiliary definitions\<close>

text \<open>
  The four tests of \<open>analyzeMessage\<close> and the list its pushes build from their outcomes,
  named so that the proofs can split on the outcomes alone.
\<close>

definition codeMatch :: "string \<Rightarrow> bool" where
  "codeMatch l = (includesStr l ''code'' \<or> includesStr l ''react''
                \<or> includesStr l ''javascript'' \<or> includesStr l ''component'')"

definition designMatch :: "string \<Rightarrow> bool" where
  "designMatch l = (includesStr l ''design'' \<or> includesStr l ''ui''
                \<or> includesStr l ''ux'' \<or> includesStr l ''style'')"

definition writingMatch :: "string \<Rightarrow> bool" where
  "writingMatch l = (includesStr l ''write'' \<or> includesStr l ''content''
                \<or> includesStr l ''documentation'')"

definition analysisMatch :: "string \<Rightarrow> bool" where
  "analysisMatch l = (includesStr l ''analyze'' \<or> includesStr l ''performance''
                \<or> includesStr l ''optimize'')"

definition pushed :: "bool \<Rightarrow> bool \<Rightarrow> bool \<Rightarrow> bool \<Rightarrow> string list" where
  "pushed c d w a =
     (let specialists0 = [];
          specialists1 = (if c then specialists0 @ [''code_ai''] else specialists0);
          specialists2 = (if d then specialists1 @ [''design_ai''] else specialists1);
          specialists3 = (if w then specialists2 @ [''writing_ai''] else specialists2);
          specialists4 = (if a then specialists3 @ [''analysis_ai''] else specialists3)
      in if length specialists4 = 0 then specialists4 @ [''code_ai''] else specialists4)"

text \<open>What the caller handed to the store for a stored message.\<close>

definition insertOf :: "message \<Rightarrow> insert_message" where
  "insertOf m =
     \<lparr> conversationId = conversationId m, role = role m, content = content m,
       specialist = specialist m, metadata = metadata m \<rparr>"

text \<open>A store in which conversation \<open>cid\<close> exists and which serves \<open>n\<close> more calls.\<close>

definition serves :: "store \<Rightarrow> string \<Rightarrow> nat \<Rightarrow> bool" where
  "serves st cid n = (cid \<in> set (map fst (conversations st)) \<and> n \<le> available st)"

text \<open>A small store for the examples: one conversation \<open>c1\<close> of user \<open>u1\<close>, no message.\<close>

definition exampleStore :: "nat \<Rightarrow> store" where
  "exampleStore n =
     \<lparr> conversations = [(''c1'', ''u1'')], messages = [], clock = 0, available = n \<rparr>"

text \<open>A stand-in for the schema: the body is the content of a user message.\<close>

definition exampleParse :: "string \<Rightarrow> string \<Rightarrow> error + insert_message" where
  "exampleParse b cid =
     (if b = [] then Inl (ZodError ''content: required'')
      else Inr \<lparr> conversationId = cid, role = ''user'', content = Some b,
                 specialist = None, metadata = None \<rparr>)"

section \<open>Strings: basic facts\<close>

lemma includesStr_sublist: "includesStr s sub \<longleftrightarrow> sublist sub s"
  by (induction s) (auto simp: sublist_Cons_right)

lemma includesStr_set: "includesStr s sub \<Longrightarrow> set sub \<subseteq> set s"
  by (simp add: includesStr_sublist set_mono_sublist)

lemma lowerChar_space: "isSpace c \<Longrightarrow> lowerChar c = c"
  by (auto simp: isSpace_def lowerChar_def)

lemma toLowerCase_spaces: "list_all isSpace s \<Longrightarrow> toLowerCase s = s"
  by (induction s) (simp_all add: toLowerCase_def lowerChar_space)

lemma spaces_no_letter:
  assumes "list_all isSpace s" and "\<not> isSpace c"
  shows "c \<notin> set s"
  using assms by (auto simp: list_all_iff)

lemma spaces_not_includes:
  assumes "list_all isSpace s" and "\<not> isSpace (hd k)" and "k \<noteq> []"
  shows "\<not> includesStr s k"
proof
  assume "includesStr s k"
  then have "set k \<subseteq> set s" by (rule includesStr_set)
  moreover have "hd k \<in> set k" using assms(3) by simp
  ultimately have "hd k \<in> set s" by blast
  with spaces_no_letter [OF assms(1,2)] show False by simp
qed

section \<open>The classifier: its selection and its rationale\<close>

lemma specialists_pushed:
  "specialists (analyzeMessage m) =
     pushed (codeMatch (toLowerCase m)) (designMatch (toLowerCase m))
       (writingMatch (toLowerCase m)) (analysisMatch (toLowerCase m))"
  unfolding analyzeMessage_def pushed_def Let_def codeMatch_def designMatch_def
    writingMatch_def analysisMatch_def
  by (simp only: coordinator_response.select_convs)

lemma analysis_unfold:
  "analysis (analyzeMessage m) =
     ''I'' @ [CHR 0x27] @ ''ll coordinate with our specialists to help you: ''
       @ join '', '' (map (\<lambda>s. replace s ''_'' '' '') (specialists (analyzeMessage m)))"
  unfolding analyzeMessage_def Let_def
  by (simp only: coordinator_response.select_convs)

lemma context_unfold: "context' (analyzeMessage m) = \<lparr> originalMessage = m \<rparr>"
  unfolding analyzeMessage_def Let_def
  by (simp only: coordinator_response.select_convs)

lemma pushed_filter:
  "pushed c d w a =
     (let selected = map fst (filter snd
            [(''code_ai'', c), (''design_ai'', d), (''writing_ai'', w), (''analysis_ai'', a)])
      in if selected = [] then [''code_ai''] else selected)"
  by (cases c; cases d; cases w; cases a; simp add: pushed_def Let_def)

lemma pushed_none: "pushed False False False False = [''code_ai'']"
  by (simp add: pushed_def Let_def)

lemma pushed_nonempty: "pushed c d w a \<noteq> []"
  by (cases c; cases d; cases w; cases a; simp add: pushed_def Let_def)

lemma pushed_distinct: "distinct (pushed c d w a)"
  by (cases c; cases d; cases w; cases a; simp add: pushed_def Let_def)

lemma pushed_subseq:
  "subseq (pushed c d w a) [''code_ai'', ''design_ai'', ''writing_ai'', ''analysis_ai'']"
  by (cases c; cases d; cases w; cases a; simp add: pushed_def Let_def)

lemma pushed_known: "set (pushed c d w a) \<subseteq> set knownIdentifiers"
  by (cases c; cases d; cases w; cases a;
      simp add: pushed_def Let_def knownIdentifiers_def responses_def)

lemma pushed_replace:
  "map (\<lambda>s. replace s ''_'' '' '') (pushed c d w a) = map underscoresToSpaces (pushed c d w a)"
  by (cases c; cases d; cases w; cases a;
      simp add: pushed_def Let_def underscoresToSpaces_def)

lemma groupMatches_groups:
  "groupMatches l (''code_ai'', [''code'', ''react'', ''javascript'', ''component'']) = codeMatch l"
  "groupMatches l (''design_ai'', [''design'', ''ui'', ''ux'', ''style'']) = designMatch l"
  "groupMatches l (''writing_ai'', [''write'', ''content'', ''documentation'']) = writingMatch l"
  "groupMatches l (''analysis_ai'', [''analyze'', ''performance'', ''optimize'']) = analysisMatch l"
  by (simp_all add: groupMatches_def codeMatch_def designMatch_def writingMatch_def
        analysisMatch_def)

lemma classifySpec_pushed:
  "classifySpec m =
     pushed (codeMatch (toLowerCase m)) (designMatch (toLowerCase m))
       (writingMatch (toLowerCase m)) (analysisMatch (toLowerCase m))"
proof -
  have "filter (groupMatches l) keywordGroups =
          map (\<lambda>p. (fst p, the (map_of keywordGroups (fst p))))
            (filter snd [(''code_ai'', codeMatch l), (''design_ai'', designMatch l),
               (''writing_ai'', writingMatch l), (''analysis_ai'', analysisMatch l)])" for l
    by (cases "codeMatch l"; cases "designMatch l"; cases "writingMatch l";
        cases "analysisMatch l"; simp add: keywordGroups_def groupMatches_groups)
  then have "map fst (filter (groupMatches l) keywordGroups) =
          map fst (filter snd [(''code_ai'', codeMatch l), (''design_ai'', designMatch l),
               (''writing_ai'', writingMatch l), (''analysis_ai'', analysisMatch l)])" for l
    by (simp add: comp_def)
  then show ?thesis
    by (simp only: classifySpec_def pushed_filter)
qed

lemma no_keyword_no_match:
  assumes "\<not> list_ex (includesStr l) allKeywords"
  shows "\<not> codeMatch l" "\<not> designMatch l" "\<not> writingMatch l" "\<not> analysisMatch l"
  using assms
  by (simp_all add: allKeywords_def keywordGroups_def codeMatch_def designMatch_def
        writingMatch_def analysisMatch_def)

lemma spaces_no_keyword:
  assumes "list_all isSpace s"
  shows "\<not> list_ex (includesStr s) allKeywords"
proof -
  have "\<not> includesStr s k" if "k \<in> set allKeywords" for k
  proof (rule spaces_not_includes [OF assms])
    show "\<not> isSpace (hd k)" using that
      by (auto simp: allKeywords_def keywordGroups_def isSpace_def)
    show "k \<noteq> []" using that
      by (auto simp: allKeywords_def keywordGroups_def)
  qed
  then show ?thesis by (simp add: list_ex_iff)
qed

lemma example_write_analyze:
  "specialists (analyzeMessage
      ''Can you help me write documentation and also analyze performance?'') =
     [''writing_ai'', ''analysis_ai'']"
  by code_simp

lemma example_react_ui:
  "specialists (analyzeMessage ''I need a react component for my ui design'') =
     [''code_ai'', ''design_ai'']"
  by code_simp

text \<open>
  Claim C2. For every input string, \<open>analyzeMessage\<close> lower-cases the text and selects
  the specialists by substring tests against the four keyword groups, taken in the fixed
  order \<open>code_ai\<close>, \<open>design_ai\<close>, \<open>writing_ai\<close>, \<open>analysis_ai\<close>: the selection is the one
  \<open>classifySpec\<close> describes, no specialist occurs twice, and the selection is always a
  subsequence of the fixed order, whatever the positions of the keywords in the text.
  For "Can you help me write documentation and also analyze performance?" it is
  \<open>writing_ai\<close>, then \<open>analysis_ai\<close>.
\<close>

theorem classify_selection:
  "specialists (analyzeMessage message) = classifySpec message
   \<and> distinct (specialists (analyzeMessage message))
   \<and> (subseq (specialists (analyzeMessage message))
         [''code_ai'', ''design_ai'', ''writing_ai'', ''analysis_ai''])
   \<and> specialists (analyzeMessage
         ''Can you help me write documentation and also analyze performance?'') =
       [''writing_ai'', ''analysis_ai'']"
  by (simp only: specialists_pushed classifySpec_pushed pushed_distinct pushed_subseq
        example_write_analyze [unfolded specialists_pushed] simp_thms)

theorem classify_selection_witness:
  "classifySpec ''Optimize the STYLE of my code'' = [''code_ai'', ''design_ai'', ''analysis_ai'']
   \<and> specialists (analyzeMessage ''Optimize the STYLE of my code'') =
       [''code_ai'', ''design_ai'', ''analysis_ai'']"
proof -
  have "classifySpec ''Optimize the STYLE of my code'' =
          [''code_ai'', ''design_ai'', ''analysis_ai'']"
    by code_simp
  with classify_selection [of "''Optimize the STYLE of my code''"] show ?thesis
    by simp
qed

text \<open>
  Claim C5. For every input string whose lower-cased text contains none of the keywords
  (the test the classifier makes), and so for the empty string and for every string of
  white space only, \<open>analyzeMessage\<close> selects exactly \<open>code_ai\<close>; the selection is never
  empty.
\<close>

theorem classify_fallback:
  "(\<not> list_ex (includesStr (toLowerCase message)) allKeywords
      \<longrightarrow> specialists (analyzeMessage message) = [''code_ai''])
   \<and> (list_all isSpace message \<longrightarrow> specialists (analyzeMessage message) = [''code_ai''])
   \<and> specialists (analyzeMessage []) = [''code_ai'']
   \<and> specialists (analyzeMessage message) \<noteq> []"
proof -
  have none: "specialists (analyzeMessage m) = [''code_ai'']"
    if "\<not> list_ex (includesStr (toLowerCase m)) allKeywords" for m
    using no_keyword_no_match [OF that]
    by (simp only: specialists_pushed pushed_none)
  have spaces: "specialists (analyzeMessage m) = [''code_ai'']" if "list_all isSpace m" for m
  proof (rule none)
    from that show "\<not> list_ex (includesStr (toLowerCase m)) allKeywords"
      by (simp only: toLowerCase_spaces spaces_no_keyword not_False_eq_True)
  qed
  have "specialists (analyzeMessage []) = [''code_ai'']"
    by (rule spaces) simp
  moreover have "specialists (analyzeMessage message) \<noteq> []"
    by (simp only: specialists_pushed pushed_nonempty not_False_eq_True)
  ultimately show ?thesis
    using none [of message] spaces [of message] by blast
qed

theorem classify_fallback_witness:
  "\<not> list_ex (includesStr (toLowerCase ''Hello there!'')) allKeywords
   \<and> specialists (analyzeMessage ''Hello there!'') = [''code_ai'']
   \<and> list_all isSpace [CHR '' '', CHR 0x09, CHR 0x0A]
   \<and> specialists (analyzeMessage [CHR '' '', CHR 0x09, CHR 0x0A]) = [''code_ai'']"
proof -
  have a: "\<not> list_ex (includesStr (toLowerCase ''Hello there!'')) allKeywords"
    by code_simp
  have b: "list_all isSpace [CHR '' '', CHR 0x09, CHR 0x0A]"
    by (simp add: isSpace_def)
  from a b classify_fallback [of "''Hello there!''"]
    classify_fallback [of "[CHR '' '', CHR 0x09, CHR 0x0A]"]
  show ?thesis by blast
qed

text \<open>
  Claim C6. For every input string, the selection of \<open>analyzeMessage\<close> has no duplicate
  and each of its elements is an identifier of the registry (\<open>code_ai\<close>, \<open>design_ai\<close>,
  \<open>writing_ai\<close>, \<open>analysis_ai\<close>).
\<close>

theorem classify_distinct_known:
  "distinct (specialists (analyzeMessage message))
   \<and> set (specialists (analyzeMessage message)) \<subseteq> set knownIdentifiers
   \<and> knownIdentifiers = [''code_ai'', ''design_ai'', ''writing_ai'', ''analysis_ai'']"
proof -
  have "knownIdentifiers = [''code_ai'', ''design_ai'', ''writing_ai'', ''analysis_ai'']"
    by (simp add: knownIdentifiers_def responses_def)
  then show ?thesis
    by (simp only: specialists_pushed pushed_distinct pushed_known simp_thms)
qed

theorem classify_distinct_known_witness:
  "specialists (analyzeMessage ''write code, then more code'') = [''code_ai'', ''writing_ai'']
   \<and> distinct [''code_ai'', ''writing_ai'']
   \<and> set [''code_ai'', ''writing_ai''] \<subseteq> set knownIdentifiers"
proof -
  have "specialists (analyzeMessage ''write code, then more code'') =
          [''code_ai'', ''writing_ai'']"
    by code_simp
  with classify_distinct_known [of "''write code, then more code''"] show ?thesis
    by simp
qed

text \<open>
  Claim C7. For every input string, the rationale of \<open>analyzeMessage\<close> is the fixed
  sentence "I'll coordinate with our specialists to help you: " followed by the selected
  identifiers, in selection order, with underscores turned into spaces and joined by
  ", ". For "I need a react component for my ui design" the selection is \<open>code_ai\<close>,
  \<open>design_ai\<close> and the content of the coordinator record is
  "I'll coordinate with our specialists to help you: code ai, design ai".
\<close>

theorem classify_rationale:
  "analysis (analyzeMessage message) = rationaleSpec (specialists (analyzeMessage message))
   \<and> specialists (analyzeMessage ''I need a react component for my ui design'') =
       [''code_ai'', ''design_ai'']
   \<and> content (coordinatorInsert cid
         (analyzeMessage ''I need a react component for my ui design'')) =
       Some (''I'' @ [CHR 0x27]
             @ ''ll coordinate with our specialists to help you: code ai, design ai'')"
proof -
  have general: "analysis (analyzeMessage m) = rationaleSpec (specialists (analyzeMessage m))"
    for m
    by (simp only: analysis_unfold rationaleSpec_def specialists_pushed pushed_replace)
  have "rationaleSpec [''code_ai'', ''design_ai''] =
          ''I'' @ [CHR 0x27]
             @ ''ll coordinate with our specialists to help you: code ai, design ai''"
    by (simp add: rationaleSpec_def underscoresToSpaces_def)
  then have "content (coordinatorInsert cid
         (analyzeMessage ''I need a react component for my ui design'')) =
       Some (''I'' @ [CHR 0x27]
             @ ''ll coordinate with our specialists to help you: code ai, design ai'')"
    by (simp only: coordinatorInsert_def insert_message.select_convs general
          example_react_ui)
  with general [of message] example_react_ui show ?thesis
    by (simp only: simp_thms)
qed

theorem classify_rationale_witness:
  "analysis (analyzeMessage ''Please analyze my writing content'') =
     ''I'' @ [CHR 0x27]
        @ ''ll coordinate with our specialists to help you: writing ai, analysis ai''"
proof -
  have "specialists (analyzeMessage ''Please analyze my writing content'') =
          [''writing_ai'', ''analysis_ai'']"
    by code_simp
  with classify_rationale [of "''Please analyze my writing content''"] show ?thesis
    by (simp add: rationaleSpec_def underscoresToSpaces_def)
qed

section \<open>The store: what an append does\<close>

lemma createMessage_Inr:
  assumes "createMessage ins st = (Inr m, st')"
  shows "messages st' = messages st @ [m]" and "insertOf m = ins"
    and "conversations st' = conversations st" and "available st = Suc (available st')"
  using assms
  by (auto simp: createMessage_def insertOf_def Let_def split: if_splits)

lemma createMessage_Inl:
  assumes "createMessage ins st = (Inl e, st')"
  shows "messages st' = messages st" and "conversations st' = conversations st"
    and "e = StoreUnavailable \<or> e = NotFound"
  using assms
  by (auto simp: createMessage_def Let_def split: if_splits)

lemma createMessage_serves:
  assumes "serves st (conversationId ins) (Suc n)"
  shows "\<exists>m st'. createMessage ins st = (Inr m, st') \<and> serves st' (conversationId ins) n"
  using assms
  by (auto simp: createMessage_def serves_def Let_def)

section \<open>The registry: lookups\<close>

lemma knownIdentifiers_eq:
  "knownIdentifiers = [''code_ai'', ''design_ai'', ''writing_ai'', ''analysis_ai'']"
  by (simp add: knownIdentifiers_def responses_def)


lemma known_lookup: "s \<in> set knownIdentifiers \<Longrightarrow> \<exists>r. map_of responses s = Some r"
  by (metis knownIdentifiers_def map_of_eq_None_iff not_None_eq set_map)


lemma selected_known:
  assumes "s \<in> set (specialists (analyzeMessage m))"
  shows "s \<in> set knownIdentifiers"
  using assms pushed_known unfolding specialists_pushed by blast

lemma selected_lookup:
  assumes "s \<in> set (specialists (analyzeMessage m))"
  shows "\<exists>r. map_of responses s = Some r \<and> getSpecialistResponse s um ctx = ResponseObject r"
proof -
  from known_lookup [OF selected_known [OF assms]] obtain r
    where "map_of responses s = Some r" ..
  then show ?thesis by (simp add: getSpecialistResponse_def)
qed




text \<open>
  Claim C9. The result of \<open>getSpecialistResponse\<close> does not depend on the message or on
  the context: two invocations for the same specialist, with any two message texts and
  any two contexts, give the same result, and for each of the four built-in specialists
  this result is the entry of the table \<open>responses\<close>, a fixed content and metadata.
\<close>

theorem builtin_handlers_constant:
  "getSpecialistResponse s m1 ctx1 = getSpecialistResponse s m2 ctx2
   \<and> (s \<in> set knownIdentifiers \<longrightarrow>
        map_option ResponseObject (map_of responses s) = Some (getSpecialistResponse s m1 ctx1))"
proof -
  have "map_option ResponseObject (map_of responses s) = Some (getSpecialistResponse s m1 ctx1)"
    if "s \<in> set knownIdentifiers"
    using known_lookup [OF that] by (auto simp: getSpecialistResponse_def)
  then show ?thesis
    by (simp add: getSpecialistResponse_def)
qed

theorem builtin_handlers_constant_witness:
  "getSpecialistResponse ''writing_ai'' ''write a poem'' \<lparr> originalMessage = ''write a poem'' \<rparr>
     = getSpecialistResponse ''writing_ai'' ''documentation, please''
         \<lparr> originalMessage = ''documentation, please'' \<rparr>
   \<and> metadataOf (getSpecialistResponse ''writing_ai'' ''write a poem''
         \<lparr> originalMessage = ''write a poem'' \<rparr>) =
       Some (JObject [(''type'', JString ''writing''), (''tone'', JString ''professional'')])"
proof -
  have k: "''writing_ai'' \<in> set knownIdentifiers"
    by (simp add: knownIdentifiers_eq)
  have "map_option (metadataOf \<circ> ResponseObject) (map_of responses ''writing_ai'') =
      Some (Some (JObject [(''type'', JString ''writing''), (''tone'', JString ''professional'')]))"
    by (simp add: responses_def)
  with k builtin_handlers_constant [of "''writing_ai''" "''write a poem''"
      "\<lparr> originalMessage = ''write a poem'' \<rparr>" "''documentation, please''"
      "\<lparr> originalMessage = ''documentation, please'' \<rparr>"]
  show ?thesis
    by (cases "map_of responses ''writing_ai''") auto
qed

section \<open>The dispatcher: the loop and the round\<close>

lemma delegate_appends:
  "delegate h cid um ctx sel acc st = (res, st') \<Longrightarrow> \<exists>ms. messages st' = messages st @ ms"
proof (induction sel arbitrary: acc st)
  case Nil
  then show ?case by simp
next
  case (Cons s sel)
  show ?case
  proof (cases "h s um ctx")
    case (Inl e)
    with Cons.prems show ?thesis by simp
  next
    case (Inr v)
    obtain r st1 where cm: "createMessage (specialistInsert cid s v) st = (r, st1)"
      by (cases "createMessage (specialistInsert cid s v) st")
    show ?thesis
    proof (cases r)
      case (Inl e)
      with Cons.prems Inr cm createMessage_Inl(1) [of _ st e st1] show ?thesis by simp
    next
      case r: (Inr m)
      with Cons.prems Inr cm
      have "delegate h cid um ctx sel (acc @ [m]) st1 = (res, st')" by simp
      from Cons.IH [OF this] obtain ms where "messages st' = messages st1 @ ms" ..
      with createMessage_Inr(1) [of _ st m st1] cm r show ?thesis by simp
    qed
  qed
qed

lemma delegate_success:
  assumes "delegate h cid um ctx sel acc st = (Inr rs, st')"
  shows "\<exists>new. rs = acc @ new \<and> messages st' = messages st @ new
           \<and> list_all2 (\<lambda>s m. \<exists>v. h s um ctx = Inr v \<and> insertOf m = specialistInsert cid s v)
                sel new"
  using assms
proof (induction sel arbitrary: acc st)
  case Nil
  then show ?case by simp
next
  case (Cons s sel)
  from Cons.prems obtain v where v: "h s um ctx = Inr v"
    by (cases "h s um ctx") simp_all
  obtain r st1 where cm: "createMessage (specialistInsert cid s v) st = (r, st1)"
    by (cases "createMessage (specialistInsert cid s v) st")
  from Cons.prems v cm obtain m where r: "r = Inr m"
    by (cases r) simp_all
  with Cons.prems v cm
  have "delegate h cid um ctx sel (acc @ [m]) st1 = (Inr rs, st')" by simp
  from Cons.IH [OF this] obtain new where new: "rs = (acc @ [m]) @ new"
    "messages st' = messages st1 @ new"
    "list_all2 (\<lambda>s m. \<exists>v. h s um ctx = Inr v \<and> insertOf m = specialistInsert cid s v) sel new"
    by blast
  from cm r have "messages st1 = messages st @ [m]" "insertOf m = specialistInsert cid s v"
    by (simp_all add: createMessage_Inr)
  with new v have "rs = acc @ (m # new) \<and> messages st' = messages st @ (m # new)
     \<and> list_all2 (\<lambda>s m. \<exists>v. h s um ctx = Inr v \<and> insertOf m = specialistInsert cid s v)
          (s # sel) (m # new)"
    by simp
  then show ?case by blast
qed

lemma list_all2_map_eq:
  "list_all2 (\<lambda>x y. g y = f x) xs ys \<Longrightarrow> map g ys = map f xs"
  by (induction rule: list_all2_induct) simp_all

lemma delegate_builtin_success:
  assumes "delegate builtinHandler cid um ctx sel acc st = (Inr rs, st')"
  shows "\<exists>new. rs = acc @ new \<and> messages st' = messages st @ new
           \<and> map insertOf new = map (\<lambda>s. specialistInsert cid s (getSpecialistResponse s um ctx)) sel"
proof -
  from delegate_success [OF assms] obtain new where new: "rs = acc @ new"
    "messages st' = messages st @ new"
    "list_all2 (\<lambda>s m. \<exists>v. builtinHandler s um ctx = Inr v
        \<and> insertOf m = specialistInsert cid s v) sel new"
    by blast
  from new(3) have "list_all2 (\<lambda>s m. insertOf m
      = specialistInsert cid s (getSpecialistResponse s um ctx)) sel new"
    by (rule list_all2_mono) (auto simp: builtinHandler_def)
  then have "map insertOf new
      = map (\<lambda>s. specialistInsert cid s (getSpecialistResponse s um ctx)) sel"
    by (rule list_all2_map_eq)
  with new(1,2) show ?thesis by blast
qed

lemma pair_Inr: "\<not> isl (fst p) \<Longrightarrow> p = (Inr (projr (fst p)), snd p)"
  by (cases p; cases "fst p") auto

lemma pair_Inl: "isl (fst p) \<Longrightarrow> p = (Inl (projl (fst p)), snd p)"
  by (cases p; cases "fst p") auto

lemma delegate_builtin_serves:
  assumes "serves st cid (length sel)"
  shows "\<not> isl (fst (delegate builtinHandler cid um ctx sel acc st))"
  using assms
proof (induction sel arbitrary: acc st)
  case Nil
  then show ?case by simp
next
  case (Cons s sel)
  let ?ins = "specialistInsert cid s (getSpecialistResponse s um ctx)"
  from Cons.prems have "serves st (conversationId ?ins) (Suc (length sel))"
    by (simp add: specialistInsert_def)
  from createMessage_serves [OF this] obtain m st1
    where "createMessage ?ins st = (Inr m, st1)" and "serves st1 cid (length sel)"
    by (auto simp: specialistInsert_def)
  with Cons.IH [of st1 "acc @ [m]"] show ?case
    by (simp add: builtinHandler_def)
qed

text \<open>A round succeeds whenever the store has the conversation and serves its appends.\<close>

lemma coordinate_succeeds:
  assumes "serves st cid (Suc (length (specialists (analyzeMessage userMessage))))"
  shows "\<not> isl (fst (coordinateAIResponse userMessage cid st))"
proof -
  let ?ins = "coordinatorInsert cid (analyzeMessage userMessage)"
  from assms have "serves st (conversationId ?ins)
      (Suc (length (specialists (analyzeMessage userMessage))))"
    by (simp add: coordinatorInsert_def)
  from createMessage_serves [OF this] obtain c st1
    where "createMessage ?ins st = (Inr c, st1)"
      and "serves st1 cid (length (specialists (analyzeMessage userMessage)))"
    by (auto simp: coordinatorInsert_def)
  with delegate_builtin_serves [of st1 cid] show ?thesis
    by (simp add: coordinateAIResponse_def coordinateWith_def Let_def)
qed



lemma insertOf_fields:
  "conversationId (insertOf m) = conversationId m" "role (insertOf m) = role m"
  "content (insertOf m) = content m" "specialist (insertOf m) = specialist m"
  "metadata (insertOf m) = metadata m"
  by (simp_all add: insertOf_def)

lemma map_field_insertOf:
  assumes "rs \<noteq> []" and "\<And>m. g (insertOf m) = f m"
  shows "map f rs = g (insertOf (hd rs)) # map g (map insertOf (tl rs))"
  using assms(1) by (cases rs) (simp_all add: assms(2))

text \<open>
  Claim C1. For every message text and conversation id, a successful round of
  \<open>coordinateAIResponse\<close> appends exactly \<open>1 + N\<close> messages, \<open>N\<close> being the number of
  specialists the classifier selected, and returns exactly the appended records in that
  order. The first is the coordinator message: role \<open>coordinator\<close>, specialist field
  \<open>coordinator\<close>, the rationale as content, and the metadata \<open>{ specialists: ... }\<close> with
  the selected list. Then comes one message per selected specialist, in selection order:
  role \<open>assistant\<close>, the specialist field set to that identifier, and as content and
  metadata those of the handler's result for that specialist, which is the specialist's
  entry in the table \<open>responses\<close>.
\<close>

theorem coordinate_success:
  assumes "coordinateAIResponse userMessage cid st = (Inr rs, st')"
  shows "length rs = 1 + length (specialists (analyzeMessage userMessage))
    \<and> messages st' = messages st @ rs
    \<and> insertOf (hd rs) =
        \<lparr> conversationId = cid, role = ''coordinator'',
          content = Some (analysis (analyzeMessage userMessage)),
          specialist = Some ''coordinator'',
          metadata = Some (JObject [(''specialists'',
                       JArray (map JString (specialists (analyzeMessage userMessage))))]) \<rparr>
    \<and> map (\<lambda>s. Some (getSpecialistResponse s userMessage
                (context' (analyzeMessage userMessage))))
          (specialists (analyzeMessage userMessage)) =
        map (\<lambda>s. map_option ResponseObject (map_of responses s))
          (specialists (analyzeMessage userMessage))
    \<and> map insertOf (tl rs) =
        map (\<lambda>s. \<lparr> conversationId = cid, role = ''assistant'',
                    content = map_option specialist_response.content (map_of responses s),
                    specialist = Some s,
                    metadata = map_option specialist_response.metadata (map_of responses s) \<rparr>)
          (specialists (analyzeMessage userMessage))"
proof -
  let ?cr = "analyzeMessage userMessage"
  obtain r st1 where cm: "createMessage (coordinatorInsert cid ?cr) st = (r, st1)"
    by (cases "createMessage (coordinatorInsert cid ?cr) st")
  from assms cm obtain c where r: "r = Inr c"
    by (cases r) (simp_all add: coordinateAIResponse_def coordinateWith_def Let_def)
  with assms cm
  have "delegate builtinHandler cid userMessage (context' ?cr) (specialists ?cr) [c] st1
          = (Inr rs, st')"
    by (simp add: coordinateAIResponse_def coordinateWith_def Let_def)
  from delegate_builtin_success [OF this] obtain new where new: "rs = [c] @ new"
    "messages st' = messages st1 @ new"
    "map insertOf new = map (\<lambda>s. specialistInsert cid s
        (getSpecialistResponse s userMessage (context' ?cr))) (specialists ?cr)"
    by blast
  from cm r have c: "messages st1 = messages st @ [c]" "insertOf c = coordinatorInsert cid ?cr"
    by (simp_all add: createMessage_Inr)
  from new(3) have len: "length new = length (specialists ?cr)"
    by (metis length_map)
  have looked: "map (\<lambda>s. Some (getSpecialistResponse s userMessage (context' ?cr)))
        (specialists ?cr) =
      map (\<lambda>s. map_option ResponseObject (map_of responses s)) (specialists ?cr)"
  proof (rule map_cong [OF refl])
    fix s assume "s \<in> set (specialists ?cr)"
    from selected_lookup [OF this, of userMessage "context' ?cr"]
    show "Some (getSpecialistResponse s userMessage (context' ?cr)) =
        map_option ResponseObject (map_of responses s)"
      by auto
  qed
  have stored: "map (\<lambda>s. specialistInsert cid s
        (getSpecialistResponse s userMessage (context' ?cr))) (specialists ?cr) =
      map (\<lambda>s. \<lparr> conversationId = cid, role = ''assistant'',
                    content = map_option specialist_response.content (map_of responses s),
                    specialist = Some s,
                    metadata = map_option specialist_response.metadata (map_of responses s) \<rparr>)
        (specialists ?cr)"
  proof (rule map_cong [OF refl])
    fix s assume "s \<in> set (specialists ?cr)"
    from selected_lookup [OF this, of userMessage "context' ?cr"]
    show "specialistInsert cid s (getSpecialistResponse s userMessage (context' ?cr)) =
        \<lparr> conversationId = cid, role = ''assistant'',
          content = map_option specialist_response.content (map_of responses s),
          specialist = Some s,
          metadata = map_option specialist_response.metadata (map_of responses s) \<rparr>"
      by (auto simp: specialistInsert_def)
  qed
  from new c len looked stored show ?thesis
    by (simp add: coordinatorInsert_def)
qed

theorem coordinate_success_witness:
  "\<not> isl (fst (coordinateAIResponse ''Write code to analyze the ui'' ''c1'' (exampleStore 5)))
   \<and> map specialist (projr (fst (coordinateAIResponse ''Write code to analyze the ui'' ''c1''
        (exampleStore 5)))) =
       [Some ''coordinator'', Some ''code_ai'', Some ''design_ai'', Some ''writing_ai'',
        Some ''analysis_ai'']
   \<and> map role (projr (fst (coordinateAIResponse ''Write code to analyze the ui'' ''c1''
        (exampleStore 5)))) =
       [''coordinator'', ''assistant'', ''assistant'', ''assistant'', ''assistant'']
   \<and> map content (projr (fst (coordinateAIResponse ''Write code to analyze the ui'' ''c1''
        (exampleStore 5)))) =
       [Some (''I'' @ [CHR 0x27] @ ''ll coordinate with our specialists to help you: code ai, design ai, writing ai, analysis ai''),
        Some (''I'' @ [CHR 0x27] @ ''ll help you with the code implementation. Based on your request, I recommend creating a React component with TypeScript for better type safety and maintainability.''),
        Some ''For the UI/UX design, I suggest following modern design principles with proper spacing, typography, and accessibility considerations. The design should be responsive and user-friendly.'',
        Some (''I'' @ [CHR 0x27] @ ''ll help you with clear, concise content that communicates effectively with your users. The writing should be professional yet approachable.''),
        Some ''From an analysis perspective, I recommend considering performance implications, scalability, and best practices for long-term maintenance.'']
   \<and> map metadata (projr (fst (coordinateAIResponse ''Write code to analyze the ui'' ''c1''
        (exampleStore 5)))) =
       [Some (JObject [(''specialists'', JArray [JString ''code_ai'', JString ''design_ai'',
                 JString ''writing_ai'', JString ''analysis_ai''])]),
        Some (JObject [(''type'', JString ''code''), (''language'', JString ''javascript'')]),
        Some (JObject [(''type'', JString ''design''), (''recommendations'',
                 JArray [JString ''responsive'', JString ''accessible'', JString ''modern''])]),
        Some (JObject [(''type'', JString ''writing''), (''tone'', JString ''professional'')]),
        Some (JObject [(''type'', JString ''analysis''), (''focus'',
                 JArray [JString ''performance'', JString ''scalability''])])]
   \<and> messages (snd (coordinateAIResponse ''Write code to analyze the ui'' ''c1''
        (exampleStore 5))) =
       projr (fst (coordinateAIResponse ''Write code to analyze the ui'' ''c1''
        (exampleStore 5)))"
proof -
  let ?m = "''Write code to analyze the ui''"
  let ?p = "coordinateAIResponse ?m ''c1'' (exampleStore 5)"
  let ?rs = "projr (fst ?p)"
  have ok: "\<not> isl (fst ?p)"
    by code_simp
  have sel: "specialists (analyzeMessage ?m) =
      [''code_ai'', ''design_ai'', ''writing_ai'', ''analysis_ai'']"
    by code_simp
  have ana: "analysis (analyzeMessage ?m) = ''I'' @ [CHR 0x27] @ ''ll coordinate with our specialists to help you: code ai, design ai, writing ai, analysis ai''"
    by code_simp
  note t = coordinate_success [OF pair_Inr [OF ok]]
  from t have len: "length ?rs = 1 + length (specialists (analyzeMessage ?m))"
    by (rule conjunct1)
  from t have log: "messages (snd ?p) = messages (exampleStore 5) @ ?rs"
    by (simp only:)
  from t have first: "insertOf (hd ?rs) =
        \<lparr> conversationId = ''c1'', role = ''coordinator'',
          content = Some (analysis (analyzeMessage ?m)),
          specialist = Some ''coordinator'',
          metadata = Some (JObject [(''specialists'',
                       JArray (map JString (specialists (analyzeMessage ?m))))]) \<rparr>"
    by (simp only:)
  from t have rest: "map insertOf (tl ?rs) =
        map (\<lambda>s. \<lparr> conversationId = ''c1'', role = ''assistant'',
                    content = map_option specialist_response.content (map_of responses s),
                    specialist = Some s,
                    metadata = map_option specialist_response.metadata (map_of responses s) \<rparr>)
          (specialists (analyzeMessage ?m))"
    by (simp only:)
  from len have ne: "?rs \<noteq> []" by auto
  have tab: "map_of responses ''code_ai'' = Some codeAiEntry"
    "map_of responses ''design_ai'' = Some (snd (responses ! 1))"
    "map_of responses ''writing_ai'' = Some (snd (responses ! 2))"
    "map_of responses ''analysis_ai'' = Some (snd (responses ! 3))"
    by (simp_all add: responses_def)
  have rest': "map insertOf (tl ?rs) =
      [\<lparr> conversationId = ''c1'', role = ''assistant'',
         content = Some (specialist_response.content codeAiEntry),
         specialist = Some ''code_ai'',
         metadata = Some (specialist_response.metadata codeAiEntry) \<rparr>,
       \<lparr> conversationId = ''c1'', role = ''assistant'',
         content = Some (specialist_response.content (snd (responses ! 1))),
         specialist = Some ''design_ai'',
         metadata = Some (specialist_response.metadata (snd (responses ! 1))) \<rparr>,
       \<lparr> conversationId = ''c1'', role = ''assistant'',
         content = Some (specialist_response.content (snd (responses ! 2))),
         specialist = Some ''writing_ai'',
         metadata = Some (specialist_response.metadata (snd (responses ! 2))) \<rparr>,
       \<lparr> conversationId = ''c1'', role = ''assistant'',
         content = Some (specialist_response.content (snd (responses ! 3))),
         specialist = Some ''analysis_ai'',
         metadata = Some (specialist_response.metadata (snd (responses ! 3))) \<rparr>]"
    unfolding rest sel by (simp only: list.map tab option.map)
  have spec: "map specialist ?rs =
      [Some ''coordinator'', Some ''code_ai'', Some ''design_ai'', Some ''writing_ai'',
       Some ''analysis_ai'']"
    using map_field_insertOf [where f = specialist and g = specialist and rs = ?rs,
        OF ne insertOf_fields(4), unfolded first rest'] by simp
  have rol: "map role ?rs =
      [''coordinator'', ''assistant'', ''assistant'', ''assistant'', ''assistant'']"
    using map_field_insertOf [where f = role and g = role and rs = ?rs,
        OF ne insertOf_fields(2), unfolded first rest'] by simp
  have con: "map content ?rs =
      [Some (analysis (analyzeMessage ?m)),
       Some (specialist_response.content codeAiEntry),
       Some (specialist_response.content (snd (responses ! 1))),
       Some (specialist_response.content (snd (responses ! 2))),
       Some (specialist_response.content (snd (responses ! 3)))]"
    using map_field_insertOf [where f = content and g = content and rs = ?rs,
        OF ne insertOf_fields(3), unfolded first rest'] by simp
  have met: "map metadata ?rs =
      [Some (JObject [(''specialists'', JArray (map JString (specialists (analyzeMessage ?m))))]),
       Some (specialist_response.metadata codeAiEntry),
       Some (specialist_response.metadata (snd (responses ! 1))),
       Some (specialist_response.metadata (snd (responses ! 2))),
       Some (specialist_response.metadata (snd (responses ! 3)))]"
    using map_field_insertOf [where f = metadata and g = metadata and rs = ?rs,
        OF ne insertOf_fields(5), unfolded first rest'] by simp
  have lg: "messages (snd ?p) = ?rs"
    using log by (simp add: exampleStore_def)
  show ?thesis
    unfolding spec rol con met lg sel ana
    by (simp add: ok responses_def codeAiEntry_def)
qed

section \<open>The registry and the round: unknown identifiers\<close>







section \<open>The route: a failure after the user message\<close>

lemma coordinateWith_appends:
  assumes "coordinateWith h um cid st = (res, st')"
  shows "prefix (messages st) (messages st')"
proof -
  let ?ins = "coordinatorInsert cid (analyzeMessage um)"
  obtain r st1 where cm: "createMessage ?ins st = (r, st1)"
    by (cases "createMessage ?ins st")
  show ?thesis
  proof (cases r)
    case (Inl e)
    with assms cm createMessage_Inl(1) [of ?ins st e st1] show ?thesis
      by (simp add: coordinateWith_def Let_def)
  next
    case (Inr c)
    with assms cm have "delegate h cid um (context' (analyzeMessage um))
        (specialists (analyzeMessage um)) [c] st1 = (res, st')"
      by (simp add: coordinateWith_def Let_def)
    from delegate_appends [OF this] obtain ms where "messages st' = messages st1 @ ms" ..
    with createMessage_Inr(1) [of ?ins st c st1] cm Inr show ?thesis
      by (simp add: prefix_def)
  qed
qed

lemma getConversation_messages:
  "getConversation cid uid st = (res, st') \<Longrightarrow> messages st' = messages st"
  by (auto simp: getConversation_def split: if_splits)

text \<open>
  Claim C10. In the route that posts a message, the user message is stored before the
  coordination begins. When the coordination then fails with an error that is not a
  \<open>ZodError\<close>, the response is the status 500 with the fixed body "Failed to create
  message", which says nothing about what was stored, and the store still holds the user
  message, followed by whatever the coordination appended: nothing is rolled back.
\<close>

theorem post_failure_keeps_user_message:
  assumes "getConversation (paramsId req) (userId req) st = (Inr (Some conversation), st1)"
    and "parse (body req) (paramsId req) = Inr validatedData"
    and "createMessage validatedData st1 = (Inr userMessage, st2)"
    and "content validatedData = Some text"
    and "coordinateAIResponse text (paramsId req) st2 = (Inl e, st3)"
    and "\<forall>errors. e \<noteq> ZodError errors"
  shows "postMessage parse req st =
           (\<lparr> status = 500, json = ErrorBody ''Failed to create message'' \<rparr>, st3)
    \<and> messages st2 = messages st @ [userMessage]
    \<and> prefix (messages st @ [userMessage]) (messages st3)"
proof -
  from assms(6) have "onError e = \<lparr> status = 500, json = ErrorBody ''Failed to create message'' \<rparr>"
    by (cases e) simp_all
  with assms(1-5) have "postMessage parse req st =
           (\<lparr> status = 500, json = ErrorBody ''Failed to create message'' \<rparr>, st3)"
    by (simp add: postMessage_def Let_def)
  moreover have "messages st2 = messages st @ [userMessage]"
    using createMessage_Inr(1) [OF assms(3)] getConversation_messages [OF assms(1)] by simp
  moreover have "prefix (messages st2) (messages st3)"
    using assms(5) unfolding coordinateAIResponse_def by (rule coordinateWith_appends)
  ultimately show ?thesis by simp
qed

theorem post_failure_keeps_user_message_witness:
  "fst (postMessage exampleParse \<lparr> userId = ''u1'', paramsId = ''c1'', body = ''style'' \<rparr>
      (exampleStore 3)) = \<lparr> status = 500, json = ErrorBody ''Failed to create message'' \<rparr>
   \<and> map role (messages (snd (postMessage exampleParse
        \<lparr> userId = ''u1'', paramsId = ''c1'', body = ''style'' \<rparr> (exampleStore 3)))) =
       [''user'', ''coordinator'']"
proof -
  let ?req = "\<lparr> userId = ''u1'', paramsId = ''c1'', body = ''style'' \<rparr>"
  let ?v = "\<lparr> conversationId = ''c1'', role = ''user'', content = Some ''style'',
             specialist = None, metadata = None \<rparr>"
  let ?um = "\<lparr> conversationId = ''c1'', role = ''user'', content = Some ''style'',
              specialist = None, metadata = None, messageId = 0, createdAt = 0 \<rparr>"
  let ?st2 = "\<lparr> conversations = [(''c1'', ''u1'')], messages = [?um], clock = 1,
               available = 1 \<rparr>"
  let ?run = "coordinateAIResponse ''style'' ''c1'' ?st2"
  have h1: "getConversation (paramsId ?req) (userId ?req) (exampleStore 3) =
              (Inr (Some (''c1'', ''u1'')), exampleStore 2)"
    by (simp add: getConversation_def exampleStore_def)
  have h2: "exampleParse (body ?req) (paramsId ?req) = Inr ?v"
    by (simp add: exampleParse_def)
  have h3: "createMessage ?v (exampleStore 2) = (Inr ?um, ?st2)"
    by (simp add: createMessage_def exampleStore_def Let_def)
  have h4: "content ?v = Some ''style''"
    by simp
  have "isl (fst ?run)"
    by code_simp
  then have "?run = (Inl (projl (fst ?run)), snd ?run)"
    by (rule pair_Inl)
  then have h5: "coordinateAIResponse ''style'' (paramsId ?req) ?st2
                   = (Inl (projl (fst ?run)), snd ?run)"
    by simp
  have e: "projl (fst ?run) = StoreUnavailable"
    by code_simp
  have h6: "\<forall>errors. projl (fst ?run) \<noteq> ZodError errors"
    unfolding e by simp
  have stored: "map role (messages (snd ?run)) = [''user'', ''coordinator'']"
    by code_simp
  from post_failure_keeps_user_message [where parse = exampleParse and req = ?req,
      OF h1 h2 h3 h4 h5 h6] stored
  show ?thesis
    by simp
qed

end
